theory Spec2Isabelle
  imports Main "HOL-Library.AList"
begin

section \<open>The decoded document as a store of Python objects\<close>

text \<open>
  The parser of \<^verbatim>\<open>openapi_parser.py\<close> works on the value that \<^verbatim>\<open>yaml.safe_load\<close> or
  \<^verbatim>\<open>response.json()\<close> returns: nested Python dictionaries and lists.  \<^verbatim>\<open>__parse_ref\<close>
  deletes keys from these dictionaries and assigns into them, and it returns the
  dictionaries themselves, so the same object can be reached from several places.  The
  objects therefore live in a store; a value is a scalar or a reference to a
  dictionary or list of the store.  Dictionaries keep their insertion order (an
  association list with distinct keys), keys are strings, numbers are integers.
\<close>

datatype val = VNone | VBool bool | VInt int | VStr string | VRef nat

datatype obj = ODict "(string \<times> val) list" | OList "val list"

type_synonym heap = "obj list"

text \<open>The decoded document before it is placed in the store: a tree.\<close>

datatype json =
    JNull | JBool bool | JInt int | JStr string
  | JList "json list" | JDict "(string \<times> json) list"

datatype error =
    KeyError | IndexError | AttributeError | TypeError
  | AssertionError | RecursionError | RuntimeError

text \<open>
  A computation raises (\<open>Inl\<close>), returns (\<open>Inr\<close>) or runs forever (\<open>None\<close>): the search
  loop of \<^verbatim>\<open>__find_key_in_dict\<close> does not come back when the store holds a cycle.
\<close>

type_synonym 'a res = "(error + 'a) option"

definition ok :: "'a \<Rightarrow> 'a res" where
  "ok x = Some (Inr x)"

definition raise :: "error \<Rightarrow> 'a res" where
  "raise e = Some (Inl e)"

definition bind_res :: "'a res \<Rightarrow> ('a \<Rightarrow> 'b res) \<Rightarrow> 'b res" where
  "bind_res m f = (case m of None \<Rightarrow> None | Some (Inl e) \<Rightarrow> Some (Inl e) | Some (Inr x) \<Rightarrow> f x)"

definition obj_at :: "heap \<Rightarrow> nat \<Rightarrow> obj option" where
  "obj_at h a = (if a < length h then Some (h ! a) else None)"

definition as_dict :: "heap \<Rightarrow> val \<Rightarrow> (string \<times> val) list option" where
  "as_dict h v = (case v of
      VRef a \<Rightarrow> (case obj_at h a of Some (ODict kvs) \<Rightarrow> Some kvs | _ \<Rightarrow> None)
    | _ \<Rightarrow> None)"

definition as_list :: "heap \<Rightarrow> val \<Rightarrow> val list option" where
  "as_list h v = (case v of
      VRef a \<Rightarrow> (case obj_at h a of Some (OList vs) \<Rightarrow> Some vs | _ \<Rightarrow> None)
    | _ \<Rightarrow> None)"

text \<open>\<^verbatim>\<open>isinstance(v, (dict, list))\<close>: exactly the references.\<close>

fun is_container :: "val \<Rightarrow> bool" where
  "is_container (VRef a) = True"
| "is_container v = False"

text \<open>Python's truth value of an object.\<close>

definition truthy :: "heap \<Rightarrow> val \<Rightarrow> bool" where
  "truthy h v = (case v of
      VNone \<Rightarrow> False
    | VBool b \<Rightarrow> b
    | VInt i \<Rightarrow> i \<noteq> 0
    | VStr s \<Rightarrow> s \<noteq> []
    | VRef a \<Rightarrow> (case obj_at h a of
          Some (ODict kvs) \<Rightarrow> kvs \<noteq> []
        | Some (OList vs) \<Rightarrow> vs \<noteq> []
        | None \<Rightarrow> True))"

text \<open>\<^verbatim>\<open>d.get(k, default)\<close>; on anything but a dictionary Python raises AttributeError.\<close>

definition py_get_default :: "heap \<Rightarrow> val \<Rightarrow> string \<Rightarrow> val \<Rightarrow> val res" where
  "py_get_default h d k dflt = (case as_dict h d of
      Some kvs \<Rightarrow> ok (case map_of kvs k of Some v \<Rightarrow> v | None \<Rightarrow> dflt)
    | None \<Rightarrow> raise AttributeError)"

definition py_get :: "heap \<Rightarrow> val \<Rightarrow> string \<Rightarrow> val res" where
  "py_get h d k = py_get_default h d k VNone"

text \<open>
  \<^verbatim>\<open>d[k]\<close> with a string \<open>k\<close>: KeyError on a dictionary without the key, TypeError on a
  list, a string, a number or None.
\<close>

definition py_getitem :: "heap \<Rightarrow> val \<Rightarrow> string \<Rightarrow> val res" where
  "py_getitem h d k = (case as_dict h d of
      Some kvs \<Rightarrow> (case map_of kvs k of Some v \<Rightarrow> ok v | None \<Rightarrow> raise KeyError)
    | None \<Rightarrow> raise TypeError)"

text \<open>\<^verbatim>\<open>d[k] = v\<close> on the dictionary at address \<open>a\<close>: the key keeps its place, a new key goes last.\<close>

definition dict_set :: "heap \<Rightarrow> nat \<Rightarrow> string \<Rightarrow> val \<Rightarrow> heap" where
  "dict_set h a k v = (case obj_at h a of
      Some (ODict kvs) \<Rightarrow> h[a := ODict (AList.update k v kvs)]
    | _ \<Rightarrow> h)"

definition dict_del :: "heap \<Rightarrow> nat \<Rightarrow> string \<Rightarrow> heap" where
  "dict_del h a k = (case obj_at h a of
      Some (ODict kvs) \<Rightarrow> h[a := ODict (AList.delete k kvs)]
    | _ \<Rightarrow> h)"

section \<open>\<^verbatim>\<open>__find_key_in_dict\<close>\<close>

text \<open>
  One pass of the inner \<^verbatim>\<open>for k, v in cur.items()\<close>: the value assigned to \<^verbatim>\<open>found\<close> (if the key
  is met) and the values appended to the queue.  The \<^verbatim>\<open>break\<close> leaves this loop only, so the
  entries after the target key are not enqueued.
\<close>

fun scan_dict :: "string \<Rightarrow> (string \<times> val) list \<Rightarrow> val option \<times> val list" where
  "scan_dict t [] = (None, [])"
| "scan_dict t ((k, v) # kvs) =
     (if k = t then (Some v, [])
      else (fst (scan_dict t kvs),
            (if is_container v then [v] else []) @ snd (scan_dict t kvs)))"

text \<open>
  The \<^verbatim>\<open>while queue\<close> loop, with the queue and \<^verbatim>\<open>found\<close> as its state.  It ends only when
  the queue is empty, whatever was found before.
\<close>

partial_function (option) bfs :: "heap \<Rightarrow> string \<Rightarrow> val list \<Rightarrow> val \<Rightarrow> val option" where
  "bfs h t queue found = (case queue of
      [] \<Rightarrow> Some found
    | cur # rest \<Rightarrow> (case as_dict h cur of
          Some kvs \<Rightarrow>
            bfs h t (rest @ snd (scan_dict t kvs))
              (case fst (scan_dict t kvs) of Some v \<Rightarrow> v | None \<Rightarrow> found)
        | None \<Rightarrow> (case as_list h cur of
              Some vs \<Rightarrow> bfs h t (rest @ filter is_container vs) found
            | None \<Rightarrow> bfs h t rest found)))"

declare bfs.simps [code]

definition find_key_in_dict :: "heap \<Rightarrow> val \<Rightarrow> string \<Rightarrow> val res" where
  "find_key_in_dict h data_dict target_key =
     (if data_dict = VNone then ok VNone
      else map_option Inr (bfs h target_key [data_dict] VNone))"

section \<open>Loops over dictionaries\<close>

text \<open>
  \<^verbatim>\<open>for k, v in d.items()\<close> walks the live dictionary by position, and the loop bodies below
  can reach the dictionary they walk through a pointer.  Each step reads the entry at the
  next position from the store as it is then; when the number of entries differs from the
  number at the start of the loop, CPython raises RuntimeError (dictionary changed size
  during iteration), also at the step that would end the loop.  The loop threads an
  accumulator \<open>s\<close> and the store.
\<close>

fun for_items ::
  "val \<Rightarrow> nat \<Rightarrow> nat list \<Rightarrow> (string \<Rightarrow> val \<Rightarrow> 's \<Rightarrow> heap \<Rightarrow> ('s \<times> heap) res)
    \<Rightarrow> 's \<Rightarrow> heap \<Rightarrow> ('s \<times> heap) res" where
  "for_items d n [] body s h = (case as_dict h d of
      Some kvs \<Rightarrow> if length kvs = n then ok (s, h) else raise RuntimeError
    | None \<Rightarrow> raise RuntimeError)"
| "for_items d n (i # is) body s h = (case as_dict h d of
      Some kvs \<Rightarrow>
        if length kvs = n
        then bind_res (body (fst (kvs ! i)) (snd (kvs ! i)) s h)
               (\<lambda>(s', h'). for_items d n is body s' h')
        else raise RuntimeError
    | None \<Rightarrow> raise RuntimeError)"

text \<open>\<^verbatim>\<open>d.items()\<close> on anything but a dictionary raises AttributeError.\<close>

definition for_dict_items ::
  "val \<Rightarrow> (string \<Rightarrow> val \<Rightarrow> 's \<Rightarrow> heap \<Rightarrow> ('s \<times> heap) res) \<Rightarrow> 's \<Rightarrow> heap \<Rightarrow> ('s \<times> heap) res" where
  "for_dict_items d body s h = (case as_dict h d of
      Some kvs \<Rightarrow> for_items d (length kvs) [0..<length kvs] body s h
    | None \<Rightarrow> raise AttributeError)"

section \<open>\<^verbatim>\<open>__parse_ref\<close>\<close>

text \<open>\<^verbatim>\<open>s.split(c)\<close> for a one-character separator.\<close>

fun split_on :: "char \<Rightarrow> string \<Rightarrow> string list" where
  "split_on c [] = [[]]"
| "split_on c (x # xs) =
     (if x = c then [] # split_on c xs
      else (case split_on c xs of w # ws \<Rightarrow> (x # w) # ws | [] \<Rightarrow> [[x]]))"

text \<open>\<^verbatim>\<open>s in t\<close> on strings: \<open>s\<close> occurs in \<open>t\<close> as a contiguous part.\<close>

fun str_contains :: "string \<Rightarrow> string \<Rightarrow> bool" where
  "str_contains s [] = (s = [])"
| "str_contains s (c # cs) = (take (length s) (c # cs) = s \<or> str_contains s cs)"

text \<open>
  The first lines of \<^verbatim>\<open>__parse_ref\<close>: the pointer is split at the slashes, the part before
  the first slash is dropped, the first remaining part names a top-level entry of the
  document, and the last part is looked up there; when that gives nothing true, it is
  looked up one level further down, under the second part.
\<close>

definition lookup_schema :: "heap \<Rightarrow> val \<Rightarrow> val \<Rightarrow> val res" where
  "lookup_schema h root ref_path = (case ref_path of
      VStr s \<Rightarrow>
        (let ref_parts = tl (split_on (CHR ''/'') s) in
         if ref_parts = [] then raise IndexError
         else
           bind_res (py_getitem h root (hd ref_parts)) (\<lambda>schema_location.
           bind_res (py_get h schema_location (last ref_parts)) (\<lambda>hit.
             if truthy h hit then py_getitem h schema_location (last ref_parts)
             else if length ref_parts < 2 then raise IndexError
             else bind_res (py_getitem h schema_location (ref_parts ! 1))
                    (\<lambda>inner. py_getitem h inner (last ref_parts)))))
    | _ \<Rightarrow> raise AttributeError)"

definition schema_useless_keys :: "string list" where
  "schema_useless_keys = [''xml'']"

text \<open>
  \<^verbatim>\<open>if ukey in schema: del schema[ukey]\<close>, for each key of the list.  On a dictionary the key
  is removed; \<^verbatim>\<open>in\<close> on a list or a string is a membership test and the \<^verbatim>\<open>del\<close> after it
  raises TypeError; \<^verbatim>\<open>in\<close> on None or a number raises TypeError itself.
\<close>

fun delete_keys :: "heap \<Rightarrow> val \<Rightarrow> string list \<Rightarrow> heap res" where
  "delete_keys h schema [] = ok h"
| "delete_keys h schema (ukey # ukeys) = (case schema of
      VRef a \<Rightarrow> (case obj_at h a of
          Some (ODict kvs) \<Rightarrow>
            delete_keys (if ukey \<in> set (map fst kvs) then dict_del h a ukey else h) schema ukeys
        | Some (OList vs) \<Rightarrow>
            if VStr ukey \<in> set vs then raise TypeError else delete_keys h schema ukeys
        | None \<Rightarrow> raise TypeError)
    | VStr s \<Rightarrow> if str_contains ukey s then raise TypeError else delete_keys h schema ukeys
    | _ \<Rightarrow> raise TypeError)"

text \<open>\<^verbatim>\<open>d[k] = v\<close>: TypeError on anything but a dictionary.\<close>

definition py_setitem :: "heap \<Rightarrow> val \<Rightarrow> string \<Rightarrow> val \<Rightarrow> heap res" where
  "py_setitem h d k v = (case d of
      VRef a \<Rightarrow> (case obj_at h a of
          Some (ODict kvs) \<Rightarrow> ok (dict_set h a k v)
        | _ \<Rightarrow> raise TypeError)
    | _ \<Rightarrow> raise TypeError)"

text \<open>
  The body of \<^verbatim>\<open>for k, v in properties.items()\<close>; \<open>resolve\<close> is the recursive call of
  \<^verbatim>\<open>__parse_ref\<close>.  In both branches the resolved schema is stored as the property itself
  (\<^verbatim>\<open>properties[k] = item\<close>).
\<close>

definition resolve_property ::
  "(heap \<Rightarrow> val \<Rightarrow> (heap \<times> val) res) \<Rightarrow> val \<Rightarrow> string \<Rightarrow> val \<Rightarrow> unit \<Rightarrow> heap
    \<Rightarrow> (unit \<times> heap) res" where
  "resolve_property resolve properties k v u h =
     bind_res (py_get h v ''$ref'') (\<lambda>r.
       if truthy h r then
         bind_res (py_getitem h v ''$ref'') (\<lambda>r'.
         bind_res (resolve h r') (\<lambda>(h1, item).
         bind_res (py_setitem h1 properties k item) (\<lambda>h2. ok ((), h2))))
       else
         bind_res (py_get h v ''type'') (\<lambda>property_type.
           if property_type = VStr ''array'' then
             bind_res (py_getitem h v ''items'') (\<lambda>items.
             bind_res (py_get h items ''$ref'') (\<lambda>ir.
               if truthy h ir then
                 bind_res (py_getitem h items ''$ref'') (\<lambda>ir'.
                 bind_res (resolve h ir') (\<lambda>(h1, item).
                 bind_res (py_setitem h1 properties k item) (\<lambda>h2. ok ((), h2))))
               else ok ((), h)))
           else ok ((), h)))"

text \<open>
  \<^verbatim>\<open>__parse_ref\<close>.  The first argument bounds the depth of the nested calls: CPython
  raises RecursionError when a chain of pointers (a cycle, for one) nests the calls
  deeper than the interpreter's limit.  \<open>root\<close> is \<^verbatim>\<open>self.swagger_json_data\<close>.  The result
  is the store after the call and the returned schema.
\<close>

fun parse_ref :: "nat \<Rightarrow> val \<Rightarrow> heap \<Rightarrow> val \<Rightarrow> (heap \<times> val) res" where
  "parse_ref 0 root h ref_path = raise RecursionError"
| "parse_ref (Suc d) root h ref_path =
     bind_res (lookup_schema h root ref_path) (\<lambda>schema.
     bind_res (delete_keys h schema schema_useless_keys) (\<lambda>h1.
     bind_res (py_get h1 schema ''properties'') (\<lambda>properties.
       if properties = VNone then
         bind_res (find_key_in_dict h1 schema ''$ref'') (\<lambda>any_ref.
         bind_res (py_get h1 schema ''type'') (\<lambda>ty.
         bind_res (if truthy h1 any_ref \<and> ty \<noteq> VStr ''array''
                   then parse_ref d root h1 any_ref else ok (h1, schema)) (\<lambda>(h2, schema2).
         bind_res (py_get h2 schema2 ''type'') (\<lambda>ty2.
           if ty2 = VStr ''array'' then
             bind_res (find_key_in_dict h2 schema2 ''$ref'') (\<lambda>temp_ref.
               if truthy h2 temp_ref then
                 bind_res (parse_ref d root h2 temp_ref) (\<lambda>(h3, item).
                 bind_res (py_setitem h3 schema2 ''items'' item) (\<lambda>h4. ok (h4, schema2)))
               else ok (h2, schema2))
           else ok (h2, schema2)))))
       else
         bind_res (for_dict_items properties
                     (resolve_property (parse_ref d root) properties) () h1) (\<lambda>(u, h2).
         bind_res (py_setitem h2 schema ''properties'' properties) (\<lambda>h3. ok (h3, schema))))))"

section \<open>The output records\<close>

text \<open>
  The pydantic models of the source, as records of the arguments their constructors
  are called with.  Fields filled from the document hold the value found there; a schema
  is the reference that \<^verbatim>\<open>__parse_ref\<close> returned.  The field names carry the initial of their
  model, since several models share the names \<^verbatim>\<open>type\<close>, \<^verbatim>\<open>items\<close>, \<^verbatim>\<open>description\<close> and
  \<^verbatim>\<open>required\<close>.  The validation that pydantic runs on these arguments is library code and
  not part of this development.
\<close>

datatype Operation = GET | PUT | POST | DELETE | OPTIONS | HEAD | PATCH | TRACE

text \<open>\<^verbatim>\<open>Operation[name]\<close>: the member with that name, KeyError without one.\<close>

definition Operation_members :: "(string \<times> Operation) list" where
  "Operation_members =
     [(''get'', GET), (''put'', PUT), (''post'', POST), (''delete'', DELETE),
      (''options'', OPTIONS), (''head'', HEAD), (''patch'', PATCH), (''trace'', TRACE)]"

definition Operation_by_name :: "string \<Rightarrow> Operation res" where
  "Operation_by_name name = (case map_of Operation_members name of
      Some operation \<Rightarrow> ok operation
    | None \<Rightarrow> raise KeyError)"

record ArrayItem =
  ai_type :: val
  ai_enum_items :: val
  ai_default :: val

record Parameter =
  p_name :: val
  p_param_location :: val
  p_description :: val
  p_type :: val
  p_maximum :: val
  p_mimimum :: val
  p_format :: val
  p_items :: "ArrayItem option"
  p_required :: val
  p_pattern :: val
  p_max_len :: val

record RequestBody =
  rb_description :: val
  rb_data_schema :: val
  rb_required :: val

record ResponseSchema =
  rs_type :: val
  rs_items :: val

record Response =
  r_code :: string
  r_description :: val
  r_return_schema :: ResponseSchema

record Method =
  m_url :: string
  m_type :: Operation
  m_summary :: val
  m_description :: val
  m_input_formats :: val
  m_output_formats :: val
  m_responses :: "Response list option"
  m_parameters :: "Parameter list option"
  m_request_body :: "RequestBody option"

section \<open>Parameters, responses and the request body\<close>

text \<open>
  \<^verbatim>\<open>for x in v\<close>: the elements of a list, the keys of a dictionary, the characters of a
  string; TypeError on None and on numbers.  The lists of the document are never
  changed, so the elements are taken once.
\<close>

definition py_iter :: "heap \<Rightarrow> val \<Rightarrow> val list res" where
  "py_iter h v = (case v of
      VRef a \<Rightarrow> (case obj_at h a of
          Some (OList vs) \<Rightarrow> ok vs
        | Some (ODict kvs) \<Rightarrow> ok (map (\<lambda>kv. VStr (fst kv)) kvs)
        | None \<Rightarrow> raise TypeError)
    | VStr s \<Rightarrow> ok (map (\<lambda>c. VStr [c]) s)
    | _ \<Rightarrow> raise TypeError)"

fun for_each ::
  "val list \<Rightarrow> (val \<Rightarrow> 's \<Rightarrow> heap \<Rightarrow> ('s \<times> heap) res) \<Rightarrow> 's \<Rightarrow> heap \<Rightarrow> ('s \<times> heap) res" where
  "for_each [] body s h = ok (s, h)"
| "for_each (x # xs) body s h =
     bind_res (body x s h) (\<lambda>(s', h'). for_each xs body s' h')"

text \<open>\<^verbatim>\<open>len(v)\<close>: TypeError on None and on numbers.\<close>

definition py_len :: "heap \<Rightarrow> val \<Rightarrow> nat res" where
  "py_len h v = (case v of
      VRef a \<Rightarrow> (case obj_at h a of
          Some (OList vs) \<Rightarrow> ok (length vs)
        | Some (ODict kvs) \<Rightarrow> ok (length kvs)
        | None \<Rightarrow> raise TypeError)
    | VStr s \<Rightarrow> ok (length s)
    | _ \<Rightarrow> raise TypeError)"

text \<open>
  \<^verbatim>\<open>pattern\<close>, \<^verbatim>\<open>format\<close> and \<^verbatim>\<open>maxLength\<close>: read from the parameter, and from its
  \<^verbatim>\<open>schema\<close> when the parameter has none and the schema is true.
\<close>

definition constraint_field :: "heap \<Rightarrow> val \<Rightarrow> string \<Rightarrow> val res" where
  "constraint_field h param key =
     bind_res (py_get h param key) (\<lambda>x.
       if x = VNone then
         bind_res (py_get h param ''schema'') (\<lambda>sch.
           if truthy h sch then
             bind_res (py_getitem h param ''schema'') (\<lambda>sch'. py_get h sch' key)
           else ok x)
       else ok x)"

text \<open>The body of the loop of \<^verbatim>\<open>__parse_parameters\<close>, for one declared parameter.\<close>

definition parse_parameter ::
  "(heap \<Rightarrow> val \<Rightarrow> (heap \<times> val) res) \<Rightarrow> heap \<Rightarrow> val \<Rightarrow> (heap \<times> Parameter) res" where
  "parse_parameter resolve h param0 =
     bind_res (py_get h param0 ''schema'') (\<lambda>param_schema.
     bind_res
       (if param_schema = VNone then
          bind_res (py_get h param0 ''$ref'') (\<lambda>r.
            if truthy h r then bind_res (py_getitem h param0 ''$ref'') (resolve h)
            else ok (h, param0))
        else ok (h, param0)) (\<lambda>(h1, param).
     bind_res (py_get h1 param ''type'') (\<lambda>type0.
     bind_res
       (if type0 = VNone then
          bind_res (py_get h1 param ''schema'') (\<lambda>sch.
            if sch \<noteq> VNone then
              bind_res (py_getitem h1 param ''schema'') (\<lambda>sch'. py_get h1 sch' ''type'')
            else ok type0)
        else ok type0) (\<lambda>type1.
     bind_res
       (if type1 = VNone then
          bind_res (py_getitem h1 param ''schema'') (\<lambda>sch.
          bind_res (py_getitem h1 sch ''$ref'') (resolve h1))
        else ok (h1, type1)) (\<lambda>(h2, param_type).
     bind_res
       (if param_type = VStr ''array'' then
          bind_res (py_get_default h2 param ''items'' VNone) (\<lambda>items0.
          bind_res
            (if items0 = VNone then
               bind_res (py_getitem h2 param ''schema'') (\<lambda>sch.
                 py_get_default h2 sch ''items'' VNone)
             else ok items0) (\<lambda>arr_items.
            if arr_items = VNone then raise AssertionError
            else
              bind_res (py_get h2 arr_items ''type'') (\<lambda>items_type0.
              bind_res
                (if items_type0 = VNone then
                   bind_res (py_get h2 arr_items ''$ref'') (resolve h2)
                 else ok (h2, items_type0)) (\<lambda>(h3, arr_items_type).
              bind_res (py_get_default h3 arr_items ''enum'' VNone) (\<lambda>enum_items.
              bind_res (py_get_default h3 arr_items ''default'' VNone) (\<lambda>dflt.
                ok (h3, Some \<lparr>ai_type = arr_items_type, ai_enum_items = enum_items,
                                ai_default = dflt\<rparr>)))))))
        else ok (h2, None)) (\<lambda>(h3, array_item).
     bind_res (constraint_field h3 param ''pattern'') (\<lambda>pattern.
     bind_res (constraint_field h3 param ''format'') (\<lambda>format.
     bind_res (constraint_field h3 param ''maxLength'') (\<lambda>max_len.
     bind_res (py_get h3 param ''name'') (\<lambda>name.
     bind_res (py_get h3 param ''in'') (\<lambda>location.
     bind_res (py_get h3 param ''description'') (\<lambda>description.
     bind_res (py_get h3 param ''maximum'') (\<lambda>maximum.
     bind_res (py_get h3 param ''mimimum'') (\<lambda>mimimum.
     bind_res (py_get_default h3 param ''required'' (VBool False)) (\<lambda>required.
       ok (h3,
         \<lparr>p_name = name, p_param_location = location, p_description = description,
          p_type = (if param_type = VNone then VStr ''$ref'' else param_type),
          p_maximum = maximum, p_mimimum = mimimum, p_format = format,
          p_items = array_item, p_required = required, p_pattern = pattern,
          p_max_len = max_len\<rparr>))))))))))))))))"

definition parse_parameters ::
  "(heap \<Rightarrow> val \<Rightarrow> (heap \<times> val) res) \<Rightarrow> heap \<Rightarrow> val \<Rightarrow> (heap \<times> Parameter list) res" where
  "parse_parameters resolve h params_data =
     bind_res (py_iter h params_data) (\<lambda>params.
     bind_res
       (for_each params
          (\<lambda>param parsed_params h1.
             bind_res (parse_parameter resolve h1 param)
               (\<lambda>(h2, parameter). ok (parsed_params @ [parameter], h2)))
          [] h)
       (\<lambda>(parsed_params, h'). ok (h', parsed_params)))"

text \<open>The body of the loop of \<^verbatim>\<open>__parse_responses\<close>, for one status-code entry.\<close>

definition parse_response ::
  "(heap \<Rightarrow> val \<Rightarrow> (heap \<times> val) res) \<Rightarrow> heap \<Rightarrow> string \<Rightarrow> val \<Rightarrow> (heap \<times> Response) res" where
  "parse_response resolve h http_code response_data =
     bind_res (find_key_in_dict h response_data ''$ref'') (\<lambda>ref.
     bind_res (find_key_in_dict h response_data ''type'') (\<lambda>out_type.
     bind_res (if ref \<noteq> VNone then resolve h ref else ok (h, VNone)) (\<lambda>(h1, parsed_ref0).
     bind_res (find_key_in_dict h1 parsed_ref0 ''$ref'') (\<lambda>any_ref_in_parsed_schema.
     bind_res
       (if truthy h1 any_ref_in_parsed_schema then resolve h1 any_ref_in_parsed_schema
        else ok (h1, parsed_ref0)) (\<lambda>(h2, parsed_ref).
     bind_res (py_get_default h2 response_data ''description'' VNone) (\<lambda>description.
       ok (h2,
         \<lparr>r_code = http_code, r_description = description,
          r_return_schema =
            \<lparr>rs_type = (if out_type = VStr ''array'' then out_type else parsed_ref),
             rs_items = (if out_type = VStr ''array'' then parsed_ref else VNone)\<rparr>\<rparr>)))))))"

definition parse_responses ::
  "(heap \<Rightarrow> val \<Rightarrow> (heap \<times> val) res) \<Rightarrow> heap \<Rightarrow> val \<Rightarrow> (heap \<times> Response list) res" where
  "parse_responses resolve h responses_data =
     bind_res
       (for_dict_items responses_data
          (\<lambda>http_code response_data parsed_responses h1.
             bind_res (parse_response resolve h1 http_code response_data)
               (\<lambda>(h2, response). ok (parsed_responses @ [response], h2)))
          [] h)
       (\<lambda>(parsed_responses, h'). ok (h', parsed_responses))"

definition parse_request_body ::
  "(heap \<Rightarrow> val \<Rightarrow> (heap \<times> val) res) \<Rightarrow> heap \<Rightarrow> val \<Rightarrow> (heap \<times> RequestBody) res" where
  "parse_request_body resolve h request_body_data =
     bind_res (find_key_in_dict h request_body_data ''$ref'') (\<lambda>data_schema.
       if data_schema = VNone then raise AssertionError
       else
         bind_res (py_get h request_body_data ''description'') (\<lambda>description.
         bind_res
           (if description \<noteq> VNone then
              bind_res (py_len h description) (\<lambda>n. ok (if 1 < n then description else VNone))
            else ok VNone) (\<lambda>description'.
         bind_res (resolve h data_schema) (\<lambda>(h1, schema).
         bind_res (py_get_default h1 request_body_data ''required'' (VBool False)) (\<lambda>required.
           ok (h1,
             \<lparr>rb_description = description', rb_data_schema = schema,
              rb_required = required\<rparr>))))))"

section \<open>Operations, paths and the whole document\<close>

text \<open>
  \<^verbatim>\<open>d.get(k, [])\<close>: the value of the key, or a new empty list, which is a new object of the
  store.
\<close>

definition get_or_empty_list :: "heap \<Rightarrow> val \<Rightarrow> string \<Rightarrow> (heap \<times> val) res" where
  "get_or_empty_list h d k = (case as_dict h d of
      Some kvs \<Rightarrow> (case map_of kvs k of
          Some v \<Rightarrow> ok (h, v)
        | None \<Rightarrow> ok (h @ [OList []], VRef (length h)))
    | None \<Rightarrow> raise AttributeError)"

text \<open>
  \<^verbatim>\<open>__parse_method\<close>.  \<open>limit\<close> is the recursion limit left for \<^verbatim>\<open>__parse_ref\<close>, \<open>base\<close> is
  \<^verbatim>\<open>self.base_endpoint_url\<close>.  The result \<open>None\<close> is the source's bare \<^verbatim>\<open>return\<close> for a
  deprecated operation.  \<^verbatim>\<open>len(params) < 0\<close> is kept as the source has it.
\<close>

definition parse_method ::
  "nat \<Rightarrow> string \<Rightarrow> val \<Rightarrow> heap \<Rightarrow> string \<Rightarrow> val \<Rightarrow> string \<Rightarrow> (heap \<times> Method option) res" where
  "parse_method limit base root h method method_data method_url =
     bind_res (py_get_default h method_data ''deprecated'' (VBool False)) (\<lambda>deprecated.
       if truthy h deprecated then ok (h, None)
       else
         bind_res (py_get h method_data ''parameters'') (\<lambda>method_params.
         bind_res (py_get h method_data ''responses'') (\<lambda>method_responses.
         bind_res (py_get h method_data ''requestBody'') (\<lambda>method_request_body.
         bind_res
           (if method_params \<noteq> VNone then
              bind_res (parse_parameters (parse_ref limit root) h method_params)
                (\<lambda>(h1, ps). ok (h1, Some ps))
            else ok (h, None)) (\<lambda>(h1, params).
         bind_res
           (if method_responses \<noteq> VNone then
              bind_res (parse_responses (parse_ref limit root) h1 method_responses)
                (\<lambda>(h2, rs). ok (h2, Some rs))
            else ok (h1, None)) (\<lambda>(h2, responses).
         bind_res
           (if method_request_body \<noteq> VNone then
              bind_res (parse_request_body (parse_ref limit root) h2 method_request_body)
                (\<lambda>(h3, rb). ok (h3, Some rb))
            else ok (h2, None)) (\<lambda>(h3, request_body).
         bind_res (Operation_by_name method) (\<lambda>operation.
         bind_res (py_get_default h3 method_data ''summary'' VNone) (\<lambda>summary.
         bind_res (py_get_default h3 method_data ''description'' VNone) (\<lambda>description.
         bind_res (get_or_empty_list h3 method_data ''consumes'') (\<lambda>(h4, consumes).
         bind_res (get_or_empty_list h4 method_data ''produces'') (\<lambda>(h5, produces).
           ok (h5, Some
             \<lparr>m_url = base @ method_url, m_type = operation, m_summary = summary,
              m_description = description, m_input_formats = consumes,
              m_output_formats = produces,
              m_responses = (case responses of
                  None \<Rightarrow> None
                | Some rs \<Rightarrow> if int (length rs) < 0 then None else Some rs),
              m_parameters = (case params of
                  None \<Rightarrow> None
                | Some ps \<Rightarrow> if int (length ps) < 0 then None else Some ps),
              m_request_body = request_body\<rparr>)))))))))))))"

text \<open>
  \<^verbatim>\<open>__parse_endpoints\<close> prints every parsed method that is not \<^verbatim>\<open>None\<close>; the printed
  methods, in order, are the catalog it produces.
\<close>

definition parse_endpoints ::
  "nat \<Rightarrow> string \<Rightarrow> val \<Rightarrow> heap \<Rightarrow> val \<Rightarrow> (Method list \<times> heap) res" where
  "parse_endpoints limit base root h endpoints_data =
     bind_res (py_len h endpoints_data) (\<lambda>count.
       for_dict_items endpoints_data
         (\<lambda>endpoint_url methods.
            for_dict_items methods
              (\<lambda>method method_data catalog h1.
                 bind_res (parse_method limit base root h1 method method_data endpoint_url)
                   (\<lambda>(h2, parsed_method).
                      ok (case parsed_method of
                            None \<Rightarrow> catalog
                          | Some m \<Rightarrow> catalog @ [m], h2))))
         [] h)"

text \<open>
  \<^verbatim>\<open>parse_swagger\<close>, after the document has been fetched and decoded into \<open>root\<close>.
\<close>

definition parse_swagger :: "nat \<Rightarrow> string \<Rightarrow> heap \<Rightarrow> val \<Rightarrow> (Method list \<times> heap) res" where
  "parse_swagger limit base h root =
     bind_res (py_get h root ''paths'') (\<lambda>endpoints.
       if endpoints = VNone then raise AssertionError
       else parse_endpoints limit base root h endpoints)"

section \<open>The variant under \<^verbatim>\<open>src/project\<close>\<close>

text \<open>
  The second copy of the parser receives the document from prance's
  \<^verbatim>\<open>ResolvingParser\<close>, which has replaced the pointers before the parser runs; \<open>root\<close>
  below is that value.  This copy has no \<^verbatim>\<open>__parse_ref\<close> and no search; it cleans schemas
  with \<^verbatim>\<open>__prepare_schema\<close>, and its \<^verbatim>\<open>__parse_method\<close> leaves responses and request body
  out.  Its Parameter model has other fields.
\<close>

record Parameter_project =
  pp_name :: val
  pp_location :: val
  pp_description :: val
  pp_required :: val
  pp_deprecated :: val
  pp_type :: val
  pp_schema_obj :: val
  pp_items :: val
  pp_maximum :: val
  pp_mimimum :: val
  pp_format :: val
  pp_pattern :: val
  pp_max_len :: val

record Method_project =
  pm_url :: string
  pm_type :: Operation
  pm_summary :: val
  pm_description :: val
  pm_input_formats :: val
  pm_output_formats :: val
  pm_responses :: "Response list option"
  pm_parameters :: "Parameter_project list option"
  pm_request_body :: "RequestBody option"

text \<open>\<^verbatim>\<open>del d[k]\<close>: KeyError on a dictionary without the key, TypeError on anything else.\<close>

definition py_delitem :: "heap \<Rightarrow> val \<Rightarrow> string \<Rightarrow> heap res" where
  "py_delitem h d k = (case d of
      VRef a \<Rightarrow> (case obj_at h a of
          Some (ODict kvs) \<Rightarrow>
            if k \<in> set (map fst kvs) then ok (dict_del h a k) else raise KeyError
        | _ \<Rightarrow> raise TypeError)
    | _ \<Rightarrow> raise TypeError)"

text \<open>
  The inner function \<^verbatim>\<open>delete_useless_keys\<close> of \<^verbatim>\<open>__prepare_schema\<close>: dictionaries and
  lists are built anew, without the entries whose key is in the set, and the values are
  cleaned in turn.  The first argument bounds the depth of the recursion, as for
  \<^verbatim>\<open>__parse_ref\<close>.
\<close>

fun rebuild_dict ::
  "(heap \<Rightarrow> val \<Rightarrow> (heap \<times> val) res) \<Rightarrow> string list \<Rightarrow> (string \<times> val) list
    \<Rightarrow> (string \<times> val) list \<Rightarrow> heap \<Rightarrow> ((string \<times> val) list \<times> heap) res" where
  "rebuild_dict clean keys [] res h = ok (res, h)"
| "rebuild_dict clean keys ((k, v) # kvs) res h =
     (if k \<in> set keys then rebuild_dict clean keys kvs res h
      else bind_res (clean h v)
             (\<lambda>(h', v'). rebuild_dict clean keys kvs (AList.update k v' res) h'))"

fun rebuild_list ::
  "(heap \<Rightarrow> val \<Rightarrow> (heap \<times> val) res) \<Rightarrow> val list \<Rightarrow> val list \<Rightarrow> heap
    \<Rightarrow> (val list \<times> heap) res" where
  "rebuild_list clean [] res h = ok (res, h)"
| "rebuild_list clean (v # vs) res h =
     bind_res (clean h v) (\<lambda>(h', v'). rebuild_list clean vs (res @ [v']) h')"

fun delete_useless_keys :: "nat \<Rightarrow> string list \<Rightarrow> heap \<Rightarrow> val \<Rightarrow> (heap \<times> val) res" where
  "delete_useless_keys 0 keys h data = raise RecursionError"
| "delete_useless_keys (Suc d) keys h data = (case data of
      VRef a \<Rightarrow> (case obj_at h a of
          Some (ODict kvs) \<Rightarrow>
            bind_res (rebuild_dict (delete_useless_keys d keys) keys kvs [] h)
              (\<lambda>(res, h'). ok (h' @ [ODict res], VRef (length h')))
        | Some (OList vs) \<Rightarrow>
            bind_res (rebuild_list (delete_useless_keys d keys) vs [] h)
              (\<lambda>(res, h'). ok (h' @ [OList res], VRef (length h')))
        | None \<Rightarrow> ok (h, data))
    | _ \<Rightarrow> ok (h, data))"

definition prepare_schema ::
  "nat \<Rightarrow> heap \<Rightarrow> val \<Rightarrow> bool \<Rightarrow> string list \<Rightarrow> (heap \<times> val) res" where
  "prepare_schema limit h schema_data delete_type additional_keys =
     bind_res (if delete_type then py_delitem h schema_data ''type'' else ok h) (\<lambda>h1.
     bind_res (delete_keys h1 schema_data additional_keys) (\<lambda>h2.
       delete_useless_keys limit schema_useless_keys h2 schema_data))"

text \<open>\<^verbatim>\<open>d.get(k, {})\<close>: the value of the key, or a new empty dictionary.\<close>

definition get_or_empty_dict :: "heap \<Rightarrow> val \<Rightarrow> string \<Rightarrow> (heap \<times> val) res" where
  "get_or_empty_dict h d k = (case as_dict h d of
      Some kvs \<Rightarrow> (case map_of kvs k of
          Some v \<Rightarrow> ok (h, v)
        | None \<Rightarrow> ok (h @ [ODict []], VRef (length h)))
    | None \<Rightarrow> raise AttributeError)"

text \<open>
  The inner loop over \<^verbatim>\<open>additional_keys\<close>, for one key; the fallback reads the literal key
  \<^verbatim>\<open>"key"\<close> of the schema, as the source does.
\<close>

definition additional_value :: "heap \<Rightarrow> val \<Rightarrow> string \<Rightarrow> val res" where
  "additional_value h param akey =
     bind_res (py_get h param akey) (\<lambda>x.
       if x = VNone then
         bind_res (py_get h param ''schema'') (\<lambda>sch.
           if as_dict h sch \<noteq> None then
             bind_res (py_getitem h param ''schema'') (\<lambda>sch'. py_get h sch' ''key'')
           else ok x)
       else ok x)"

text \<open>\<^verbatim>\<open>a.get(k) or b.get(k)\<close>.\<close>

definition get_or :: "heap \<Rightarrow> val \<Rightarrow> val \<Rightarrow> string \<Rightarrow> val res" where
  "get_or h a b k =
     bind_res (py_get h a k) (\<lambda>x. if truthy h x then ok x else py_get h b k)"

text \<open>The body of the loop of \<^verbatim>\<open>__parse_parameters\<close> in this variant.\<close>

definition parse_parameter_project :: "nat \<Rightarrow> heap \<Rightarrow> val \<Rightarrow> (heap \<times> Parameter_project) res" where
  "parse_parameter_project limit h param =
     bind_res (get_or_empty_dict h param ''schema'') (\<lambda>(h1, param_schema).
     bind_res (get_or h1 param param_schema ''type'') (\<lambda>param_type.
     bind_res (additional_value h1 param ''pattern'') (\<lambda>pattern.
     bind_res (additional_value h1 param ''format'') (\<lambda>format.
     bind_res (additional_value h1 param ''maxLength'') (\<lambda>max_len.
     bind_res
       (if truthy h1 param_schema \<and> param_type \<noteq> VStr ''array''
        then prepare_schema limit h1 param_schema True [''pattern'', ''format'', ''maxLength'']
        else ok (h1, VNone)) (\<lambda>(h2, schema_obj).
     bind_res
       (if param_type = VStr ''array'' then
          bind_res (get_or h2 param param_schema ''items'') (\<lambda>array_items.
          bind_res (py_getitem h2 array_items ''type'') (\<lambda>items_type.
            if items_type = VStr ''object'' then prepare_schema limit h2 array_items False []
            else ok (h2, array_items)))
        else ok (h2, VNone)) (\<lambda>(h3, items).
     bind_res (py_get h3 param ''name'') (\<lambda>name.
     bind_res (py_get h3 param ''in'') (\<lambda>location.
     bind_res (py_get h3 param ''description'') (\<lambda>description.
     bind_res (py_get_default h3 param ''required'' (VBool False)) (\<lambda>required.
     bind_res (py_get_default h3 param ''deprecated'' (VBool False)) (\<lambda>deprecated.
     bind_res (py_get h3 param ''maximum'') (\<lambda>maximum.
     bind_res (py_get h3 param ''mimimum'') (\<lambda>mimimum.
       ok (h3,
         \<lparr>pp_name = name, pp_location = location, pp_description = description,
          pp_required = required, pp_deprecated = deprecated, pp_type = param_type,
          pp_schema_obj = (if truthy h3 schema_obj then schema_obj else VNone),
          pp_items = items, pp_maximum = maximum, pp_mimimum = mimimum,
          pp_format = format, pp_pattern = pattern, pp_max_len = max_len\<rparr>)))))))))))))))"

definition parse_parameters_project ::
  "nat \<Rightarrow> heap \<Rightarrow> val \<Rightarrow> (heap \<times> Parameter_project list) res" where
  "parse_parameters_project limit h params_data =
     bind_res (py_iter h params_data) (\<lambda>params.
     bind_res
       (for_each params
          (\<lambda>param parsed_params h1.
             bind_res (parse_parameter_project limit h1 param)
               (\<lambda>(h2, parameter). ok (parsed_params @ [parameter], h2)))
          [] h)
       (\<lambda>(parsed_params, h'). ok (h', parsed_params)))"

text \<open>
  \<^verbatim>\<open>__parse_method\<close> of this variant: \<^verbatim>\<open>len(params) <= 0\<close>, and responses and request body
  always \<^verbatim>\<open>None\<close>.
\<close>

definition parse_method_project ::
  "nat \<Rightarrow> string \<Rightarrow> heap \<Rightarrow> string \<Rightarrow> val \<Rightarrow> string \<Rightarrow> (heap \<times> Method_project option) res" where
  "parse_method_project limit base h method method_data method_url =
     bind_res (py_get_default h method_data ''deprecated'' (VBool False)) (\<lambda>deprecated.
       if truthy h deprecated then ok (h, None)
       else
         bind_res (py_get h method_data ''parameters'') (\<lambda>method_params.
         bind_res
           (if method_params \<noteq> VNone then
              bind_res (parse_parameters_project limit h method_params)
                (\<lambda>(h1, ps). ok (h1, Some ps))
            else ok (h, None)) (\<lambda>(h1, params).
         bind_res (Operation_by_name method) (\<lambda>operation.
         bind_res (py_get_default h1 method_data ''summary'' VNone) (\<lambda>summary.
         bind_res (py_get_default h1 method_data ''description'' VNone) (\<lambda>description.
         bind_res (get_or_empty_list h1 method_data ''consumes'') (\<lambda>(h2, consumes).
         bind_res (get_or_empty_list h2 method_data ''produces'') (\<lambda>(h3, produces).
           ok (h3, Some
             \<lparr>pm_url = base @ method_url, pm_type = operation, pm_summary = summary,
              pm_description = description, pm_input_formats = consumes,
              pm_output_formats = produces,
              pm_responses = None,
              pm_parameters = (case params of
                  None \<Rightarrow> None
                | Some ps \<Rightarrow> if int (length ps) \<le> 0 then None else Some ps),
              pm_request_body = None\<rparr>)))))))))"

definition parse_endpoints_project ::
  "nat \<Rightarrow> string \<Rightarrow> heap \<Rightarrow> val \<Rightarrow> (Method_project list \<times> heap) res" where
  "parse_endpoints_project limit base h endpoints_data =
     bind_res (py_len h endpoints_data) (\<lambda>count.
       for_dict_items endpoints_data
         (\<lambda>endpoint_url methods.
            for_dict_items methods
              (\<lambda>method method_data catalog h1.
                 bind_res (parse_method_project limit base h1 method method_data endpoint_url)
                   (\<lambda>(h2, parsed_method).
                      ok (case parsed_method of
                            None \<Rightarrow> catalog
                          | Some m \<Rightarrow> catalog @ [m], h2))))
         [] h)"

text \<open>\<^verbatim>\<open>parse_swagger\<close> of this variant, from the value \<open>root\<close> that prance returned.\<close>

definition parse_swagger_project ::
  "nat \<Rightarrow> string \<Rightarrow> heap \<Rightarrow> val \<Rightarrow> (Method_project list \<times> heap) res" where
  "parse_swagger_project limit base h root =
     bind_res (py_get h root ''paths'') (\<lambda>endpoints.
       if endpoints = VNone then raise AssertionError
       else parse_endpoints_project limit base h endpoints)"

section \<open>Placing a decoded document in the store, and reading a value back\<close>

text \<open>
  The decoder builds one fresh object for every mapping and every sequence of the
  document; \<open>load\<close> does the same, the parts before the whole.  \<open>snapshot\<close> reads the tree
  that a value of the store stands for, down to the given depth.
\<close>

fun load :: "json \<Rightarrow> heap \<Rightarrow> val \<times> heap"
  and load_list :: "json list \<Rightarrow> heap \<Rightarrow> val list \<times> heap"
  and load_fields :: "(string \<times> json) list \<Rightarrow> heap \<Rightarrow> (string \<times> val) list \<times> heap" where
  "load JNull h = (VNone, h)"
| "load (JBool b) h = (VBool b, h)"
| "load (JInt i) h = (VInt i, h)"
| "load (JStr s) h = (VStr s, h)"
| "load (JList js) h =
     (case load_list js h of (vs, h') \<Rightarrow> (VRef (length h'), h' @ [OList vs]))"
| "load (JDict kjs) h =
     (case load_fields kjs h of (kvs, h') \<Rightarrow> (VRef (length h'), h' @ [ODict kvs]))"
| "load_list [] h = ([], h)"
| "load_list (j # js) h =
     (case load j h of (v, h1) \<Rightarrow>
        (case load_list js h1 of (vs, h2) \<Rightarrow> (v # vs, h2)))"
| "load_fields [] h = ([], h)"
| "load_fields ((k, j) # kjs) h =
     (case load j h of (v, h1) \<Rightarrow>
        (case load_fields kjs h1 of (kvs, h2) \<Rightarrow> ((k, v) # kvs, h2)))"

fun snapshot :: "nat \<Rightarrow> heap \<Rightarrow> val \<Rightarrow> json option" where
  "snapshot 0 h v = None"
| "snapshot (Suc n) h v = (case v of
      VNone \<Rightarrow> Some JNull
    | VBool b \<Rightarrow> Some (JBool b)
    | VInt i \<Rightarrow> Some (JInt i)
    | VStr s \<Rightarrow> Some (JStr s)
    | VRef a \<Rightarrow> (case obj_at h a of
          Some (OList vs) \<Rightarrow> map_option JList (those (map (snapshot n h) vs))
        | Some (ODict kvs) \<Rightarrow>
            map_option (\<lambda>js. JDict (zip (map fst kvs) js))
              (those (map (\<lambda>kv. snapshot n h (snd kv)) kvs))
        | None \<Rightarrow> None))"

text \<open>A key occurs in a tree, at any depth.\<close>

fun has_key :: "string \<Rightarrow> json \<Rightarrow> bool"
  and has_key_list :: "string \<Rightarrow> json list \<Rightarrow> bool"
  and has_key_fields :: "string \<Rightarrow> (string \<times> json) list \<Rightarrow> bool" where
  "has_key k (JList js) = has_key_list k js"
| "has_key k (JDict kjs) = has_key_fields k kjs"
| "has_key k j = False"
| "has_key_list k [] = False"
| "has_key_list k (j # js) = (has_key k j \<or> has_key_list k js)"
| "has_key_fields k [] = False"
| "has_key_fields k ((k', j) # kjs) = (k' = k \<or> has_key k j \<or> has_key_fields k kjs)"

text \<open>
  Every path through an acyclic store is shorter than the store, so this depth reads every
  tree there is; \<open>None\<close> means that the value contains itself.
\<close>

definition view :: "heap \<Rightarrow> val \<Rightarrow> json option" where
  "view h v = snapshot (Suc (length h)) h v"

text \<open>CPython's default recursion limit.\<close>

definition recursion_limit :: nat where
  "recursion_limit = 1000"

text \<open>
  Resolving a pointer against a freshly decoded document: the tree of the returned
  schema, and the tree of the whole document after the call.
\<close>

definition resolved_schema :: "json \<Rightarrow> string \<Rightarrow> json option res" where
  "resolved_schema document ref_path = (case load document [] of (root, h) \<Rightarrow>
     bind_res (parse_ref recursion_limit root h (VStr ref_path))
       (\<lambda>(h', schema). ok (view h' schema)))"

definition document_after :: "json \<Rightarrow> string \<Rightarrow> json option res" where
  "document_after document ref_path = (case load document [] of (root, h) \<Rightarrow>
     bind_res (parse_ref recursion_limit root h (VStr ref_path))
       (\<lambda>(h', schema). ok (view h' root)))"

text \<open>The same pointer resolved a second time, on the store the first call left.\<close>

definition resolved_again :: "json \<Rightarrow> string \<Rightarrow> json option res" where
  "resolved_again document ref_path = (case load document [] of (root, h) \<Rightarrow>
     bind_res (parse_ref recursion_limit root h (VStr ref_path)) (\<lambda>(h1, schema1).
     bind_res (parse_ref recursion_limit root h1 (VStr ref_path))
       (\<lambda>(h2, schema2). ok (view h2 schema2))))"

text \<open>The search of \<^verbatim>\<open>__find_key_in_dict\<close> in a freshly decoded value.\<close>

definition find_in_tree :: "json \<Rightarrow> string \<Rightarrow> json option res" where
  "find_in_tree data target_key = (case load data [] of (v, h) \<Rightarrow>
     bind_res (find_key_in_dict h v target_key) (\<lambda>found. ok (view h found)))"

text \<open>
  The whole parse of a freshly decoded document: the catalog, with the store the parse
  ends in.
\<close>

definition parse_document :: "json \<Rightarrow> string \<Rightarrow> (Method list \<times> heap) res" where
  "parse_document document base = (case load document [] of (root, h) \<Rightarrow>
     parse_swagger recursion_limit base h root)"

definition catalog :: "json \<Rightarrow> string \<Rightarrow> Method list res" where
  "catalog document base =
     bind_res (parse_document document base) (\<lambda>(methods, h). ok methods)"

text \<open>The trees of the request-body schemas of the catalog, one per method that has a body.\<close>

definition request_body_schemas :: "json \<Rightarrow> string \<Rightarrow> json option list res" where
  "request_body_schemas document base =
     bind_res (parse_document document base) (\<lambda>(methods, h).
       ok (map (\<lambda>rb. view h (rb_data_schema rb))
             (concat (map (\<lambda>m. case m_request_body m of None \<Rightarrow> [] | Some rb \<Rightarrow> [rb])
                methods))))"

text \<open>The parameter lists of the catalog, one per method.\<close>

definition catalog_parameters :: "json \<Rightarrow> string \<Rightarrow> Parameter list option list res" where
  "catalog_parameters document base =
     bind_res (catalog document base) (\<lambda>methods. ok (map m_parameters methods))"

definition catalog_responses :: "json \<Rightarrow> string \<Rightarrow> Response list option list res" where
  "catalog_responses document base =
     bind_res (catalog document base) (\<lambda>methods. ok (map m_responses methods))"

text \<open>The same for the variant under \<^verbatim>\<open>src/project\<close>.\<close>

definition catalog_project :: "json \<Rightarrow> string \<Rightarrow> Method_project list res" where
  "catalog_project document base = (case load document [] of (root, h) \<Rightarrow>
     bind_res (parse_swagger_project recursion_limit base h root)
       (\<lambda>(methods, h'). ok methods))"

definition catalog_parameters_project ::
  "json \<Rightarrow> string \<Rightarrow> Parameter_project list option list res" where
  "catalog_parameters_project document base =
     bind_res (catalog_project document base) (\<lambda>methods. ok (map pm_parameters methods))"

text \<open>
  The trees of \<^verbatim>\<open>schema_obj\<close> and of \<^verbatim>\<open>items\<close> of every parameter of the catalog of the
  variant.
\<close>

definition parameter_schemas_project :: "json \<Rightarrow> string \<Rightarrow> (json option \<times> json option) list res" where
  "parameter_schemas_project document base = (case load document [] of (root, h) \<Rightarrow>
     bind_res (parse_swagger_project recursion_limit base h root) (\<lambda>(methods, h').
       ok (map (\<lambda>p. (view h' (pp_schema_obj p), view h' (pp_items p)))
             (concat (map (\<lambda>m. case pm_parameters m of None \<Rightarrow> [] | Some ps \<Rightarrow> ps)
                methods)))))"

text \<open>
  Two stores have the same objects when they have as many and each address holds a
  dictionary in both or a list in both; the contents may differ.
\<close>

fun is_mapping :: "obj \<Rightarrow> bool" where
  "is_mapping (ODict kvs) = True"
| "is_mapping (OList vs) = False"

definition same_kinds :: "heap \<Rightarrow> heap \<Rightarrow> bool" where
  "same_kinds h h' \<longleftrightarrow> map is_mapping h' = map is_mapping h"



section \<open>Documents used below\<close>

text \<open>
  \<open>Pet\<close> has an inline object property \<open>owner\<close> whose own property points to \<open>Address\<close>.
\<close>

definition doc_inline_object :: json where
  "doc_inline_object = JDict [(''definitions'', JDict [
     (''Pet'', JDict [
        (''type'', JStr ''object''),
        (''properties'', JDict [
           (''owner'', JDict [
              (''type'', JStr ''object''),
              (''properties'', JDict [
                 (''address'', JDict [(''$ref'', JStr ''#/definitions/Address'')])])])])]),
     (''Address'', JDict [
        (''type'', JStr ''object''),
        (''properties'', JDict [(''city'', JDict [(''type'', JStr ''string'')])])])])]"

text \<open>
  One operation whose request body points to \<open>Pet\<close>; \<open>Pet\<close> and its property \<open>photoUrls\<close>
  both carry an \<open>xml\<close> entry, as in the Swagger Petstore.
\<close>

definition doc_nested_xml :: json where
  "doc_nested_xml = JDict [
     (''paths'', JDict [(''/pet'', JDict [(''post'', JDict [
        (''requestBody'', JDict [(''content'', JDict [(''application/json'', JDict [
           (''schema'', JDict [(''$ref'', JStr ''#/components/schemas/Pet'')])])])]),
        (''responses'', JDict [(''200'', JDict [(''description'', JStr ''ok'')])])])])]),
     (''components'', JDict [(''schemas'', JDict [
        (''Pet'', JDict [
           (''type'', JStr ''object''),
           (''xml'', JDict [(''name'', JStr ''Pet'')]),
           (''properties'', JDict [
              (''photoUrls'', JDict [
                 (''type'', JStr ''array''),
                 (''xml'', JDict [(''wrapped'', JBool True)]),
                 (''items'', JDict [(''type'', JStr ''string'')])])])])])])]"

text \<open>
  Two query parameters: \<open>filter\<close> has an object schema with \<open>xml\<close> entries at two
  depths, \<open>tags\<close> is an array of strings whose items carry an \<open>xml\<close> entry.
\<close>

definition doc_parameter_xml :: json where
  "doc_parameter_xml = JDict [(''paths'', JDict [(''/pets'', JDict [(''get'', JDict [
     (''parameters'', JList [
        JDict [
           (''name'', JStr ''filter''), (''in'', JStr ''query''),
           (''schema'', JDict [
              (''type'', JStr ''object''),
              (''xml'', JDict [(''name'', JStr ''Filter'')]),
              (''properties'', JDict [
                 (''status'', JDict [
                    (''type'', JStr ''string''),
                    (''xml'', JDict [(''attribute'', JBool True)])])])])],
        JDict [
           (''name'', JStr ''tags''), (''in'', JStr ''query''),
           (''type'', JStr ''array''),
           (''items'', JDict [
              (''type'', JStr ''string''),
              (''xml'', JDict [(''name'', JStr ''tag'')])])]])])])])]"

text \<open>A response entry whose schema lists \<open>items\<close> before \<open>type\<close>.\<close>

definition response_items_first :: json where
  "response_items_first = JDict [
     (''description'', JStr ''ok''),
     (''schema'', JDict [
        (''items'', JDict [(''type'', JStr ''string'')]),
        (''type'', JStr ''array'')])]"

text \<open>A response entry with a pointer in its schema and another one in a header.\<close>

definition response_two_pointers :: json where
  "response_two_pointers = JDict [
     (''schema'', JDict [(''$ref'', JStr ''#/definitions/A'')]),
     (''headers'', JDict [(''X-Next'', JDict [
        (''schema'', JDict [(''$ref'', JStr ''#/definitions/B'')])])])]"

text \<open>\<open>Pets\<close> is an array of \<open>Pet\<close>, and \<open>Pet\<close> is as in \<open>doc_inline_object\<close>.\<close>

definition doc_array_of_pets :: json where
  "doc_array_of_pets = JDict [(''definitions'', JDict [
     (''Pets'', JDict [
        (''type'', JStr ''array''),
        (''items'', JDict [(''$ref'', JStr ''#/definitions/Pet'')])]),
     (''Pet'', JDict [
        (''type'', JStr ''object''),
        (''properties'', JDict [
           (''owner'', JDict [
              (''type'', JStr ''object''),
              (''properties'', JDict [
                 (''address'', JDict [(''$ref'', JStr ''#/definitions/Address'')])])])])]),
     (''Address'', JDict [(''type'', JStr ''string'')])])]"

definition doc_empty_paths :: json where
  "doc_empty_paths = JDict [(''swagger'', JStr ''2.0''), (''paths'', JDict [])]"

definition doc_without_paths :: json where
  "doc_without_paths = JDict [(''swagger'', JStr ''2.0'')]"

text \<open>\<open>Pet\<close> has an array property \<open>tags\<close> whose items point to \<open>Tag\<close>.\<close>

definition doc_array_property :: json where
  "doc_array_property = JDict [(''definitions'', JDict [
     (''Pet'', JDict [
        (''type'', JStr ''object''),
        (''properties'', JDict [
           (''tags'', JDict [
              (''type'', JStr ''array''),
              (''items'', JDict [(''$ref'', JStr ''#/definitions/Tag'')])])])]),
     (''Tag'', JDict [
        (''type'', JStr ''object''),
        (''properties'', JDict [(''name'', JDict [(''type'', JStr ''string'')])])])])]"

text \<open>One operation that declares an empty parameter list and no responses.\<close>

definition doc_empty_parameters :: json where
  "doc_empty_parameters = JDict [(''paths'', JDict [(''/pets'', JDict [
     (''get'', JDict [(''parameters'', JList []), (''responses'', JDict [])])])])]"


text \<open>
  A small store: the definition \<open>Name\<close> (address 0), the definitions (1), a schema that
  points to \<open>Name\<close> (2), a request body or response with that schema (3), the document
  (4), an entry without any pointer (5) and an operation without parameters, responses
  and body (6).
\<close>

definition store_name :: heap where
  "store_name =
     [ODict [(''type'', VStr ''string'')],
      ODict [(''Name'', VRef 0)],
      ODict [(''$ref'', VStr ''#/definitions/Name'')],
      ODict [(''description'', VStr ''a name''), (''schema'', VRef 2)],
      ODict [(''definitions'', VRef 1)],
      ODict [(''description'', VStr ''nothing'')],
      ODict [(''summary'', VStr ''ping'')]]"

section \<open>Facts about the operations\<close>

lemma bind_res_ok: "bind_res (ok x) f = f x"
  by (simp add: bind_res_def ok_def)


lemma bind_res_eq_ok: "bind_res m f = ok y \<longleftrightarrow> (\<exists>x. m = ok x \<and> f x = ok y)"
  by (auto simp add: bind_res_def ok_def split: option.splits sum.splits)

lemma ok_eq_ok: "ok x = ok y \<longleftrightarrow> x = y"
  by (simp add: ok_def)

lemma raise_neq_ok: "raise e \<noteq> ok x"
  by (simp add: ok_def raise_def)


lemma truthy_None: "\<not> truthy h VNone"
  by (simp add: truthy_def)

lemma py_get_default_dict:
  "as_dict h d = Some kvs \<Longrightarrow>
   py_get_default h d k dflt = ok (case map_of kvs k of Some v \<Rightarrow> v | None \<Rightarrow> dflt)"
  by (simp add: py_get_default_def)

lemma py_get_ok_dict: "py_get h d k = ok v \<Longrightarrow> as_dict h d \<noteq> None"
  by (auto simp add: py_get_def py_get_default_def raise_neq_ok split: option.splits)


subsection \<open>\<^verbatim>\<open>__parse_ref\<close> keeps the objects of the store\<close>

lemma same_kinds_refl: "same_kinds h h"
  by (simp add: same_kinds_def)

lemma same_kinds_trans: "same_kinds h h1 \<Longrightarrow> same_kinds h1 h2 \<Longrightarrow> same_kinds h h2"
  by (simp add: same_kinds_def)

lemma same_kinds_length: "same_kinds h h' \<Longrightarrow> length h' = length h"
  unfolding same_kinds_def by (metis length_map)

lemma same_kinds_update:
  "obj_at h a = Some (ODict kvs) \<Longrightarrow> same_kinds h (h[a := ODict kvs'])"
  by (auto simp add: same_kinds_def obj_at_def map_update list_eq_iff_nth_eq nth_list_update split: if_splits)

lemma same_kinds_dict_set: "same_kinds h (dict_set h a k v)"
  by (auto simp add: dict_set_def same_kinds_refl same_kinds_update split: option.splits obj.splits)

lemma same_kinds_dict_del: "same_kinds h (dict_del h a k)"
  by (auto simp add: dict_del_def same_kinds_refl same_kinds_update split: option.splits obj.splits)

lemma same_kinds_as_dict:
  "same_kinds h h' \<Longrightarrow> as_dict h v \<noteq> None \<Longrightarrow> as_dict h' v \<noteq> None"
proof -
  assume sk: "same_kinds h h'" and d: "as_dict h v \<noteq> None"
  from d obtain a kvs where v: "v = VRef a" and a: "a < length h" and ha: "h ! a = ODict kvs"
    by (auto simp add: as_dict_def obj_at_def split: val.splits option.splits obj.splits if_splits)
  from sk have len: "length h' = length h" by (rule same_kinds_length)
  from sk a have "is_mapping (h' ! a) = is_mapping (h ! a)"
    unfolding same_kinds_def by (metis len nth_map)
  with ha obtain kvs' where "h' ! a = ODict kvs'" by (cases "h' ! a") auto
  with v a len show ?thesis by (simp add: as_dict_def obj_at_def)
qed

lemma py_setitem_same_kinds: "py_setitem h d k v = ok h' \<Longrightarrow> same_kinds h h'"
  by (auto simp add: py_setitem_def ok_eq_ok raise_neq_ok same_kinds_dict_set split: val.splits option.splits obj.splits)

lemma delete_keys_same_kinds: "delete_keys h schema ks = ok h' \<Longrightarrow> same_kinds h h'"
proof (induction ks arbitrary: h)
  case Nil
  then show ?case by (simp add: ok_eq_ok same_kinds_refl)
next
  case (Cons k ks)
  then show ?case
    by (auto simp add: raise_neq_ok same_kinds_refl split: val.splits option.splits obj.splits if_splits
        intro: same_kinds_trans [OF same_kinds_dict_del])
qed

lemma for_items_same_kinds:
  assumes body: "\<And>k v s h s' h'. body k v s h = ok (s', h') \<Longrightarrow> same_kinds h h'"
  shows "for_items d n is body s h = ok (s', h') \<Longrightarrow> same_kinds h h'"
proof (induction "is" arbitrary: s h)
  case Nil
  then show ?case
    by (auto simp add: ok_eq_ok raise_neq_ok same_kinds_refl split: option.splits if_splits)
next
  case (Cons i "is")
  from Cons.prems obtain kvs s1 h1 where
    b: "body (fst (kvs ! i)) (snd (kvs ! i)) s h = ok (s1, h1)"
    and r: "for_items d n is body s1 h1 = ok (s', h')"
    by (auto simp add: raise_neq_ok bind_res_eq_ok split: option.splits if_splits)
  from body [OF b] Cons.IH [OF r] show ?case by (rule same_kinds_trans)
qed

lemma for_dict_items_same_kinds:
  assumes body: "\<And>k v s h s' h'. body k v s h = ok (s', h') \<Longrightarrow> same_kinds h h'"
  shows "for_dict_items d body s h = ok (s', h') \<Longrightarrow> same_kinds h h'"
  using for_items_same_kinds [of body, OF body]
  by (auto simp add: for_dict_items_def raise_neq_ok split: option.splits)

lemma resolve_property_same_kinds:
  assumes res: "\<And>h r h' s. resolve h r = ok (h', s) \<Longrightarrow> same_kinds h h'"
  shows "resolve_property resolve properties k v u h = ok (u', h') \<Longrightarrow> same_kinds h h'"
  unfolding resolve_property_def
  by (auto simp add: bind_res_eq_ok ok_eq_ok raise_neq_ok same_kinds_refl split: if_splits
      dest!: res py_setitem_same_kinds intro: same_kinds_trans)

lemma parse_ref_shape:
  "parse_ref d root h r = ok (h', s) \<Longrightarrow> same_kinds h h' \<and> as_dict h' s \<noteq> None"
proof (induction d arbitrary: h r h' s)
  case 0
  then show ?case by (simp add: raise_neq_ok)
next
  case (Suc d)
  have IH1: "\<And>h r h' s. parse_ref d root h r = ok (h', s) \<Longrightarrow> same_kinds h h'"
    using Suc.IH by blast
  have IH2: "\<And>h r h' s. parse_ref d root h r = ok (h', s) \<Longrightarrow> as_dict h' s \<noteq> None"
    using Suc.IH by blast
  from Suc.prems obtain schema h1 properties where
    ls: "lookup_schema h root r = ok schema"
    and dk: "delete_keys h schema schema_useless_keys = ok h1"
    and pg: "py_get h1 schema ''properties'' = ok properties"
    and rest: "(if properties = VNone then
         bind_res (find_key_in_dict h1 schema ''$ref'') (\<lambda>any_ref.
         bind_res (py_get h1 schema ''type'') (\<lambda>ty.
         bind_res (if truthy h1 any_ref \<and> ty \<noteq> VStr ''array''
                   then parse_ref d root h1 any_ref else ok (h1, schema)) (\<lambda>(h2, schema2).
         bind_res (py_get h2 schema2 ''type'') (\<lambda>ty2.
           if ty2 = VStr ''array'' then
             bind_res (find_key_in_dict h2 schema2 ''$ref'') (\<lambda>temp_ref.
               if truthy h2 temp_ref then
                 bind_res (parse_ref d root h2 temp_ref) (\<lambda>(h3, item).
                 bind_res (py_setitem h3 schema2 ''items'' item) (\<lambda>h4. ok (h4, schema2)))
               else ok (h2, schema2))
           else ok (h2, schema2)))))
       else
         bind_res (for_dict_items properties
                     (resolve_property (parse_ref d root) properties) () h1) (\<lambda>(u, h2).
         bind_res (py_setitem h2 schema ''properties'' properties) (\<lambda>h3. ok (h3, schema)))) = ok (h', s)"
    by (auto simp add: bind_res_eq_ok)
  have k1: "same_kinds h h1" using dk by (rule delete_keys_same_kinds)
  have d1: "as_dict h1 schema \<noteq> None" using pg by (rule py_get_ok_dict)
  show ?case
  proof (cases "properties = VNone")
    case True
    with rest obtain any_ref ty h2 schema2 ty2 where
      first: "(if truthy h1 any_ref \<and> ty \<noteq> VStr ''array''
                   then parse_ref d root h1 any_ref else ok (h1, schema)) = ok (h2, schema2)"
      and second: "(if ty2 = VStr ''array'' then
             bind_res (find_key_in_dict h2 schema2 ''$ref'') (\<lambda>temp_ref.
               if truthy h2 temp_ref then
                 bind_res (parse_ref d root h2 temp_ref) (\<lambda>(h3, item).
                 bind_res (py_setitem h3 schema2 ''items'' item) (\<lambda>h4. ok (h4, schema2)))
               else ok (h2, schema2))
           else ok (h2, schema2)) = ok (h', s)"
      by (auto simp add: bind_res_eq_ok)
    from first have k2: "same_kinds h1 h2" and d2: "as_dict h2 schema2 \<noteq> None"
      using IH1 IH2 d1 by (auto simp add: ok_eq_ok same_kinds_refl split: if_splits)
    from second have "same_kinds h2 h' \<and> s = schema2"
      by (auto simp add: bind_res_eq_ok ok_eq_ok same_kinds_refl split: if_splits
          dest!: IH1 py_setitem_same_kinds intro: same_kinds_trans)
    then have k3: "same_kinds h2 h'" and s: "s = schema2" by simp_all
    have "same_kinds h h'" using k1 k2 k3 by (blast intro: same_kinds_trans)
    moreover have "as_dict h' s \<noteq> None"
      using same_kinds_as_dict [OF k3 d2] s by simp
    ultimately show ?thesis by simp
  next
    case False
    with rest obtain u h2 where
      loop: "for_dict_items properties (resolve_property (parse_ref d root) properties) () h1 = ok (u, h2)"
      and fin: "py_setitem h2 schema ''properties'' properties = ok h'" and s: "s = schema"
      by (auto simp add: bind_res_eq_ok ok_eq_ok)
    have k2: "same_kinds h1 h2"
      using loop
      by (rule for_dict_items_same_kinds [rotated]) (erule resolve_property_same_kinds [rotated], erule IH1)
    have k3: "same_kinds h2 h'" using fin by (rule py_setitem_same_kinds)
    have "same_kinds h h'" using k1 k2 k3 by (blast intro: same_kinds_trans)
    moreover have "as_dict h' s \<noteq> None"
      using same_kinds_as_dict [OF same_kinds_trans [OF k2 k3] d1] s by simp
    ultimately show ?thesis by simp
  qed
qed

subsection \<open>The search in a tree without the key\<close>











lemma snapshot_None_tree: "snapshot n h VNone = Some t \<Longrightarrow> t = JNull"
  by (cases n) auto


subsection \<open>Resolution when nothing is to be done, and the verb of a method\<close>

lemma delete_keys_absent:
  "as_dict h schema = Some kvs \<Longrightarrow> set ks \<inter> fst ` set kvs = {} \<Longrightarrow> delete_keys h schema ks = ok h"
  by (induction ks) (auto simp add: as_dict_def split: val.splits option.splits obj.splits)

lemma parse_ref_nothing_to_do:
  assumes "lookup_schema h root ref_path = ok schema"
    and "as_dict h schema = Some kvs"
    and "set schema_useless_keys \<inter> fst ` set kvs = {}"
    and "map_of kvs ''properties'' = None \<or> map_of kvs ''properties'' = Some VNone"
    and "find_key_in_dict h schema ''$ref'' = ok found" and "\<not> truthy h found"
  shows "parse_ref (Suc d) root h ref_path = ok (h, schema)"
  using assms delete_keys_absent [of h schema kvs schema_useless_keys]
  by (auto simp add: bind_res_ok py_get_def py_get_default_dict)

lemma as_dict_address: "as_dict h v \<noteq> None \<Longrightarrow> \<exists>a. v = VRef a \<and> a < length h"
  by (auto simp add: as_dict_def obj_at_def split: val.splits if_splits)





section \<open>The claims\<close>

text \<open>
  C1.  The schema that \<^verbatim>\<open>__parse_ref\<close> returns for an acyclic document has no \<^verbatim>\<open>$ref\<close>
  key left at any depth.  The code does not reach this: the loop over the properties
  looks for a pointer in the property itself and in the \<^verbatim>\<open>items\<close> of an array property
  only.  In \<open>doc_inline_object\<close> the property \<open>owner\<close> of \<open>Pet\<close> is an inline object whose
  property \<open>address\<close> points to \<open>Address\<close>; the resolved \<open>Pet\<close> still holds that pointer.
\<close>

theorem parse_ref_keeps_nested_pointer:
  "resolved_schema doc_inline_object ''#/definitions/Pet'' =
     ok (Some (JDict [
       (''type'', JStr ''object''),
       (''properties'', JDict [
          (''owner'', JDict [
             (''type'', JStr ''object''),
             (''properties'', JDict [
                (''address'', JDict [(''$ref'', JStr ''#/definitions/Address'')])])])])]))
   \<and> has_key ''$ref'' (JDict [
       (''type'', JStr ''object''),
       (''properties'', JDict [
          (''owner'', JDict [
             (''type'', JStr ''object''),
             (''properties'', JDict [
                (''address'', JDict [(''$ref'', JStr ''#/definitions/Address'')])])])])])"
  by code_simp

text \<open>
  C2.  No schema of the catalog holds a denylisted key (\<^verbatim>\<open>xml\<close>) at any depth.
  \<^verbatim>\<open>__parse_ref\<close> deletes the key from the looked-up definition itself and from nothing
  below it: the request-body schema of \<open>doc_nested_xml\<close> has lost the \<^verbatim>\<open>xml\<close> of \<open>Pet\<close> and
  kept the \<^verbatim>\<open>xml\<close> of its property \<open>photoUrls\<close>.  The variant under \<^verbatim>\<open>src/project\<close> cleans
  a parameter's schema at every depth (\<open>filter\<close> of \<open>doc_parameter_xml\<close>), and leaves the
  item descriptor of an array parameter as it is unless its type is \<^verbatim>\<open>object\<close> (\<open>tags\<close>).
\<close>

theorem nested_denylisted_key_is_kept:
  "request_body_schemas doc_nested_xml ''http://host'' =
     ok [Some (JDict [
       (''type'', JStr ''object''),
       (''properties'', JDict [
          (''photoUrls'', JDict [
             (''type'', JStr ''array''),
             (''xml'', JDict [(''wrapped'', JBool True)]),
             (''items'', JDict [(''type'', JStr ''string'')])])])])]
   \<and> has_key ''xml'' (JDict [
       (''type'', JStr ''object''),
       (''properties'', JDict [
          (''photoUrls'', JDict [
             (''type'', JStr ''array''),
             (''xml'', JDict [(''wrapped'', JBool True)]),
             (''items'', JDict [(''type'', JStr ''string'')])])])])
   \<and> parameter_schemas_project doc_parameter_xml ''http://host'' =
     ok [(Some (JDict [
            (''properties'', JDict [(''status'', JDict [(''type'', JStr ''string'')])])]),
          Some JNull),
         (Some JNull,
          Some (JDict [
            (''type'', JStr ''string''),
            (''xml'', JDict [(''name'', JStr ''tag'')])]))]"
  by code_simp

text \<open>
  C3.  \<^verbatim>\<open>__find_key_in_dict\<close> returns the first occurrence of the key in breadth-first
  order, the shallowest and left-most one.  The \<^verbatim>\<open>break\<close> of the code leaves the loop over
  one dictionary only; the search goes on through the queue and every later dictionary
  that has the key overwrites \<^verbatim>\<open>found\<close>.  For \<open>response_items_first\<close> the search for
  \<^verbatim>\<open>type\<close> returns the type of the items (\<open>string\<close>), not the type of the schema above
  them (\<open>array\<close>); for \<open>response_two_pointers\<close> the search for \<^verbatim>\<open>$ref\<close> returns the pointer
  of the header, two levels below the pointer of the schema.
\<close>

theorem find_key_returns_last_occurrence:
  "find_in_tree response_items_first ''type'' = ok (Some (JStr ''string''))
   \<and> find_in_tree response_two_pointers ''$ref'' = ok (Some (JStr ''#/definitions/B''))"
  by code_simp

text \<open>
  C4.  As stated (resolving a pointer twice gives equal schemas, every call returns an
  independent value, the document is unchanged) the claim fails: in \<open>doc_array_of_pets\<close>
  the first resolution of \<open>Pets\<close> stores the resolved \<open>Pet\<close> in the document as the items
  of \<open>Pets\<close>, and the second resolution finds the pointer left inside \<open>Pet\<close> and returns
  an array of \<open>Address\<close>.
\<close>

theorem parse_ref_changes_document:
  "resolved_schema doc_array_of_pets ''#/definitions/Pets'' =
     ok (Some (JDict [
       (''type'', JStr ''array''),
       (''items'', JDict [
          (''type'', JStr ''object''),
          (''properties'', JDict [
             (''owner'', JDict [
                (''type'', JStr ''object''),
                (''properties'', JDict [
                   (''address'', JDict [(''$ref'', JStr ''#/definitions/Address'')])])])])])]))
   \<and> resolved_again doc_array_of_pets ''#/definitions/Pets'' =
     ok (Some (JDict [
       (''type'', JStr ''array''),
       (''items'', JDict [(''type'', JStr ''string'')])]))
   \<and> resolved_again doc_array_of_pets ''#/definitions/Pets''
       \<noteq> resolved_schema doc_array_of_pets ''#/definitions/Pets''
   \<and> document_after doc_array_of_pets ''#/definitions/Pets'' \<noteq> ok (Some doc_array_of_pets)"
  by code_simp

text \<open>
  C4, as amended.  \<^verbatim>\<open>__parse_ref\<close> works in place.  When it returns, the store has the same
  objects as before (as many, each dictionary still a dictionary; only contents may
  differ) and the schema returned is one of these dictionaries, not a new object.  When
  the looked-up definition has no denylisted key, no \<^verbatim>\<open>properties\<close> and the search finds no
  pointer in it, the call returns that definition and leaves the store as it was, so a
  second call gives the same.
\<close>

theorem parse_ref_works_in_place:
  "(parse_ref limit root h ref_path = ok (h', schema)
      \<longrightarrow> same_kinds h h' \<and> as_dict h' schema \<noteq> None
          \<and> (\<exists>a. schema = VRef a \<and> a < length h))
   \<and> (0 < limit
      \<and> lookup_schema h root ref_path = ok schema \<and> as_dict h schema = Some kvs
      \<and> set schema_useless_keys \<inter> fst ` set kvs = {}
      \<and> (map_of kvs ''properties'' = None \<or> map_of kvs ''properties'' = Some VNone)
      \<and> find_key_in_dict h schema ''$ref'' = ok found \<and> \<not> truthy h found
      \<longrightarrow> parse_ref limit root h ref_path = ok (h, schema))"
proof (intro conjI impI)
  assume r: "parse_ref limit root h ref_path = ok (h', schema)"
  from parse_ref_shape [OF r] show "same_kinds h h'" and d: "as_dict h' schema \<noteq> None"
    by simp_all
  from parse_ref_shape [OF r] have "length h' = length h"
    by (simp add: same_kinds_length)
  with as_dict_address [OF d] show "\<exists>a. schema = VRef a \<and> a < length h"
    by simp
next
  assume a: "0 < limit
      \<and> lookup_schema h root ref_path = ok schema \<and> as_dict h schema = Some kvs
      \<and> set schema_useless_keys \<inter> fst ` set kvs = {}
      \<and> (map_of kvs ''properties'' = None \<or> map_of kvs ''properties'' = Some VNone)
      \<and> find_key_in_dict h schema ''$ref'' = ok found \<and> \<not> truthy h found"
  then obtain d where "limit = Suc d" by (cases limit) auto
  with a show "parse_ref limit root h ref_path = ok (h, schema)"
    using parse_ref_nothing_to_do [of h root ref_path schema kvs found d] by simp
qed

text \<open>The theorem at the definition \<open>Name\<close> of \<open>store_name\<close>, which has nothing to resolve.\<close>

theorem parse_ref_works_in_place_witness:
  "parse_ref recursion_limit (VRef 4) store_name (VStr ''#/definitions/Name'') = ok (store_name, VRef 0)
   \<and> same_kinds store_name store_name \<and> as_dict store_name (VRef 0) \<noteq> None
   \<and> (\<exists>a. VRef 0 = VRef a \<and> a < length store_name)
   \<and> 0 < recursion_limit
   \<and> lookup_schema store_name (VRef 4) (VStr ''#/definitions/Name'') = ok (VRef 0)
   \<and> as_dict store_name (VRef 0) = Some [(''type'', VStr ''string'')]
   \<and> set schema_useless_keys \<inter> fst ` set [(''type'', VStr ''string'')] = {}
   \<and> map_of [(''type'', VStr ''string'')] ''properties'' = None
   \<and> find_key_in_dict store_name (VRef 0) ''$ref'' = ok VNone \<and> \<not> truthy store_name VNone"
proof -
  have a: "0 < recursion_limit" by (simp add: recursion_limit_def)
  have b: "lookup_schema store_name (VRef 4) (VStr ''#/definitions/Name'') = ok (VRef 0)"
    by code_simp
  have c: "as_dict store_name (VRef 0) = Some [(''type'', VStr ''string'')]"
    by code_simp
  have d: "set schema_useless_keys \<inter> fst ` set [(''type'', VStr ''string'')] = {}"
    by (simp add: schema_useless_keys_def)
  have e: "map_of [(''type'', VStr ''string'')] ''properties'' = None"
    by simp
  have f: "find_key_in_dict store_name (VRef 0) ''$ref'' = ok VNone"
    by code_simp
  have g: "\<not> truthy store_name VNone" by (rule truthy_None)
  note inst = parse_ref_works_in_place [of recursion_limit "VRef 4" store_name
      "VStr ''#/definitions/Name''" store_name "VRef 0" "[(''type'', VStr ''string'')]" VNone]
  from inst a b c d e f g
  have i: "parse_ref recursion_limit (VRef 4) store_name (VStr ''#/definitions/Name'') = ok (store_name, VRef 0)"
    by blast
  with inst
  have j: "same_kinds store_name store_name \<and> as_dict store_name (VRef 0) \<noteq> None
      \<and> (\<exists>a. VRef 0 = VRef a \<and> a < length store_name)"
    by blast
  from a b c d e f g i j show ?thesis by blast
qed

text \<open>
  C5.  A document whose \<^verbatim>\<open>paths\<close> is absent or an empty mapping makes the parse fail.
  The assertion \<^verbatim>\<open>endpoints is not None\<close> (with the message "0 endpoints!") stops the
  parse when \<^verbatim>\<open>paths\<close> is absent; on the empty mapping it passes, the loop runs over
  nothing and the parse ends normally with an empty catalog, in both variants.
\<close>

theorem empty_paths_is_accepted:
  "catalog doc_empty_paths ''http://host'' = ok []
   \<and> catalog_project doc_empty_paths ''http://host'' = ok []
   \<and> catalog doc_without_paths ''http://host'' = raise AssertionError
   \<and> catalog_project doc_without_paths ''http://host'' = raise AssertionError"
  by code_simp

text \<open>
  C6.  An array property whose \<^verbatim>\<open>items\<close> is a pointer keeps its place as an array, with
  the resolved schema as its \<^verbatim>\<open>items\<close>.  The code assigns the resolved schema to the
  property itself (\<^verbatim>\<open>properties[k] = item\<close>): in \<open>doc_array_property\<close> the property \<open>tags\<close>
  of \<open>Pet\<close>, an array of \<open>Tag\<close>, becomes the object schema \<open>Tag\<close>.
\<close>

theorem array_property_is_replaced_by_its_items:
  "resolved_schema doc_array_property ''#/definitions/Pet'' =
     ok (Some (JDict [
       (''type'', JStr ''object''),
       (''properties'', JDict [
          (''tags'', JDict [
             (''type'', JStr ''object''),
             (''properties'', JDict [(''name'', JDict [(''type'', JStr ''string'')])])])])]))"
  by code_simp



text \<open>
  C8.  A Method field for which nothing was parsed is \<^verbatim>\<open>None\<close>, never an empty
  container.  The test of the first copy, \<^verbatim>\<open>len(params) < 0\<close>, is never true: an
  operation with an empty parameter list (and an empty \<^verbatim>\<open>responses\<close> mapping) gets the
  empty lists.  The variant under \<^verbatim>\<open>src/project\<close> tests \<^verbatim>\<open>len(params) <= 0\<close> and gives
  \<^verbatim>\<open>None\<close>.
\<close>

theorem empty_parameter_list_is_kept:
  "catalog_parameters doc_empty_parameters ''http://host'' = ok [Some []]
   \<and> catalog_responses doc_empty_parameters ''http://host'' = ok [Some []]
   \<and> catalog_parameters_project doc_empty_parameters ''http://host'' = ok [None]"
  by code_simp






end
